theory Spec2Isabelle
  imports Main "HOL-Library.Multiset" "HOL-Library.Char_ord" "HOL-Library.List_Lexorder"
    "HOL-Library.Product_Lexorder"
begin

section \<open>Data model\<close>

text \<open>
  Both scripts write to the SQLite file \<^verbatim>\<open>off-database.db\<close>. The file is modelled by the
  three tables the scripts touch; a table that does not exist is \<open>None\<close>. A table is the
  list of its rows in rowid order. Indexes and PRAGMA settings do not change what the
  tables hold and are not part of the state.
\<close>

type_synonym row = "string list"

text \<open>The \<^verbatim>\<open>openfoodfacts\<close> table: its column names (all TEXT) and its rows.\<close>

record off_table =
  columns :: "string list"
  table_rows :: "row list"

text \<open>
  A row of the \<^verbatim>\<open>products\<close> table, in the column order of the SELECT and of the
  INSERT of \<^verbatim>\<open>export_products\<close>. \<open>None\<close> is SQL NULL.
\<close>

record product =
  product_name :: "string option"
  brand :: "string option"
  upc :: "string option"
  ean13 :: "string option"
  ingredients_text :: "string option"
  lastupdated :: "string option"
  analysis :: "string option"
  created :: "string option"
  mfg :: "string option"
  imageurl :: "string option"
  classification :: "string option"
  issues :: "string option"

text \<open>A row of the \<^verbatim>\<open>ingredients\<close> table.\<close>

record ingredient =
  title :: "string option"
  ingredient_class :: "string option"
  productcount :: "int option"
  ing_lastupdated :: "string option"
  ing_created :: "string option"
  primary_class :: "string option"

record sqlite_db =
  openfoodfacts :: "off_table option"
  products :: "product list option"
  ingredients :: "ingredient list option"

text \<open>
  A connection sees its own uncommitted changes (\<open>working\<close>); the file holds what was
  last committed (\<open>durable\<close>). When the process ends without a commit, the file is left
  at \<open>durable\<close>.
\<close>

record sqlite_conn =
  working :: sqlite_db
  durable :: sqlite_db

datatype error = StopIteration | OperationalError | PgError

text \<open>A raised exception, together with the state the database file is left in.\<close>

type_synonym failure = "error \<times> sqlite_db"

text \<open>
  The operations a transfer loop performs, in the order it performs them: a read from
  the source (with the records read), a write to the destination (with the records
  written) and a commit. The loops below log them; the log is not part of the program
  state and no branch of the program depends on it.
\<close>

datatype 'r event = Fetch "'r list" | Write "'r list" | Commit

definition connect :: "sqlite_db \<Rightarrow> sqlite_conn" where
  "connect d = \<lparr>working = d, durable = d\<rparr>"

definition commit :: "sqlite_conn \<Rightarrow> sqlite_conn" where
  "commit c = c\<lparr>durable := working c\<rparr>"

text \<open>
  A DDL statement: Python's \<^verbatim>\<open>sqlite3\<close> module opens a transaction only before a
  data-modifying statement, so a DDL statement takes effect in the file at once.
\<close>

definition autocommit :: "(sqlite_db \<Rightarrow> sqlite_db) \<Rightarrow> sqlite_conn \<Rightarrow> sqlite_conn" where
  "autocommit f c = (let d = f (working c) in \<lparr>working = d, durable = d\<rparr>)"

section \<open>Text import: \<^verbatim>\<open>import_openfoodfacts.py\<close>\<close>

text \<open>
  The tab-separated file as \<^verbatim>\<open>csv.reader\<close> yields it: the list of its records, the header
  first. \<^verbatim>\<open>get_csv_columns\<close> returns the first record; \<^verbatim>\<open>next\<close> on an empty file raises
  \<^verbatim>\<open>StopIteration\<close>.
\<close>

definition get_csv_columns :: "row list \<Rightarrow> error + row" where
  "get_csv_columns csv = (case csv of [] \<Rightarrow> Inl StopIteration | header # _ \<Rightarrow> Inr header)"

text \<open>
  Lines 65 to 68 of \<^verbatim>\<open>import_csv_data\<close>: a short row is extended with empty strings,
  a long row is cut, any other row is left as it is.
\<close>

definition normalize_row :: "nat \<Rightarrow> row \<Rightarrow> row" where
  "normalize_row n r =
     (if length r < n then r @ replicate (n - length r) ''''
      else if length r > n then take n r
      else r)"

text \<open>
  \<^verbatim>\<open>cursor.executemany(insert_sql, batch)\<close> with
  \<^verbatim>\<open>INSERT INTO openfoodfacts VALUES (?, ..., ?)\<close> and \<open>n\<close> placeholders: SQLite refuses the
  statement when the table does not exist or has another number of columns, and the
  module refuses a row that does not supply \<open>n\<close> values. Otherwise the rows are appended,
  uncommitted.
\<close>

definition executemany_off :: "nat \<Rightarrow> row list \<Rightarrow> sqlite_conn \<Rightarrow> failure + sqlite_conn" where
  "executemany_off n rows c =
     (case openfoodfacts (working c) of
        None \<Rightarrow> Inl (OperationalError, durable c)
      | Some t \<Rightarrow>
          if length (columns t) = n \<and> list_all (\<lambda>r. length r = n) rows
          then Inr (c\<lparr>working := (working c)\<lparr>openfoodfacts :=
                     Some (t\<lparr>table_rows := table_rows t @ rows\<rparr>)\<rparr>\<rparr>)
          else Inl (OperationalError, durable c))"

text \<open>The local variables of \<^verbatim>\<open>import_csv_data\<close>, the connection and the log.\<close>

record import_state =
  batch :: "row list"
  total_imported :: nat
  conn :: sqlite_conn
  events :: "row event list"

text \<open>
  One iteration of the \<^verbatim>\<open>for\<close> loop (lines 63 to 79) for batch size \<open>b\<close>. The commit of
  line 79 is inside the \<^verbatim>\<open>if total_imported % 1000000 == 0\<close> of line 77.
\<close>

definition import_row :: "nat \<Rightarrow> nat \<Rightarrow> row \<Rightarrow> import_state \<Rightarrow> failure + import_state" where
  "import_row n b r st =
     (let batch' = batch st @ [normalize_row n r];
          ev = events st @ [Fetch [r]]
      in if length batch' \<ge> b then
           (case executemany_off n batch' (conn st) of
              Inl f \<Rightarrow> Inl f
            | Inr c \<Rightarrow>
                let total' = total_imported st + length batch' in
                if total' mod 1000000 = 0
                then Inr \<lparr>batch = [], total_imported = total', conn = commit c,
                          events = ev @ [Write batch', Commit]\<rparr>
                else Inr \<lparr>batch = [], total_imported = total', conn = c,
                          events = ev @ [Write batch']\<rparr>)
         else Inr (st\<lparr>batch := batch', events := ev\<rparr>))"

fun import_rows :: "nat \<Rightarrow> nat \<Rightarrow> row list \<Rightarrow> import_state \<Rightarrow> failure + import_state" where
  "import_rows n b [] st = Inr st"
| "import_rows n b (r # rs) st =
     (case import_row n b r st of Inl f \<Rightarrow> Inl f | Inr st' \<Rightarrow> import_rows n b rs st')"

text \<open>Lines 82 to 84: the rows left over after the loop.\<close>

definition import_remaining :: "nat \<Rightarrow> import_state \<Rightarrow> failure + import_state" where
  "import_remaining n st =
     (if batch st \<noteq> [] then
        (case executemany_off n (batch st) (conn st) of
           Inl f \<Rightarrow> Inl f
         | Inr c \<Rightarrow> Inr (st\<lparr>total_imported := total_imported st + length (batch st),
                             conn := c, events := events st @ [Write (batch st)]\<rparr>))
      else Inr st)"

text \<open>
  \<^verbatim>\<open>import_csv_data\<close> with the batch size as a parameter. The header is skipped
  (\<^verbatim>\<open>next(reader)\<close>), the rows are imported, the rest is written, and line 86 commits.
  The result is the final state: its \<open>total_imported\<close> is the value returned.
\<close>

definition import_csv_data_with ::
  "nat \<Rightarrow> sqlite_conn \<Rightarrow> row list \<Rightarrow> row \<Rightarrow> failure + import_state" where
  "import_csv_data_with b c csv cols =
     (case csv of
        [] \<Rightarrow> Inl (StopIteration, durable c)
      | header # rows \<Rightarrow>
          (case import_rows (length cols) b rows
                  \<lparr>batch = [], total_imported = 0, conn = c, events = []\<rparr> of
             Inl f \<Rightarrow> Inl f
           | Inr st \<Rightarrow>
               (case import_remaining (length cols) st of
                  Inl f \<Rightarrow> Inl f
                | Inr st' \<Rightarrow> Inr (st'\<lparr>conn := commit (conn st'),
                                       events := events st' @ [Commit]\<rparr>))))"


text \<open>
  \<^verbatim>\<open>create_openfoodfacts_table\<close>: DROP TABLE IF EXISTS, CREATE TABLE with one TEXT column
  per header field, CREATE INDEX on \<^verbatim>\<open>code\<close>, commit. Whether SQLite accepts the CREATE TABLE
  and the CREATE INDEX statement for a given header is a property of the SQLite engine;
  the two verdicts are parameters (\<open>table_ok\<close>, \<open>index_ok\<close>). A refused statement raises
  \<^verbatim>\<open>sqlite3.OperationalError\<close> after the statements before it have taken effect.
\<close>

definition create_openfoodfacts_table ::
  "(row \<Rightarrow> bool) \<Rightarrow> (row \<Rightarrow> bool) \<Rightarrow> sqlite_conn \<Rightarrow> row \<Rightarrow> failure + sqlite_conn" where
  "create_openfoodfacts_table table_ok index_ok c cols =
     (let c1 = autocommit (\<lambda>d. d\<lparr>openfoodfacts := None\<rparr>) c in
      if \<not> table_ok cols then Inl (OperationalError, durable c1)
      else
        let c2 = autocommit
                   (\<lambda>d. d\<lparr>openfoodfacts := Some \<lparr>columns = cols, table_rows = []\<rparr>\<rparr>) c1
        in if \<not> index_ok cols then Inl (OperationalError, durable c2)
           else Inr (commit c2))"

text \<open>\<^verbatim>\<open>SELECT COUNT(*) FROM openfoodfacts\<close> (lines 130 and 131).\<close>

definition count_openfoodfacts :: "sqlite_conn \<Rightarrow> failure + nat" where
  "count_openfoodfacts c =
     (case openfoodfacts (working c) of
        None \<Rightarrow> Inl (OperationalError, durable c)
      | Some t \<Rightarrow> Inr (length (table_rows t)))"

text \<open>
  What \<^verbatim>\<open>main\<close> finds when it starts: the input file (\<open>None\<close> when the path does not
  exist), the database file (\<open>None\<close> when it does not exist) and the two verdicts of
  SQLite described above.
\<close>

record off_env =
  csv_file :: "row list option"
  db_file :: "sqlite_db option"
  accepts_table :: "row \<Rightarrow> bool"
  accepts_index :: "row \<Rightarrow> bool"

text \<open>
  What a run leaves behind: the exit code of the process, the database file, and what
  the final report prints (\<open>None\<close> when the run does not reach the report).
\<close>

record 'a run =
  exit_code :: int
  db_after :: "sqlite_db option"
  report :: "'a option"

text \<open>
  The report of the text import: \<^verbatim>\<open>Records imported\<close> (\<open>total_imported\<close>) and
  \<^verbatim>\<open>Records in table\<close> (\<open>final_count\<close>), with the log of the import.
\<close>

record off_report =
  records_imported :: nat
  records_in_table :: nat
  import_log :: "row event list"

text \<open>
  \<^verbatim>\<open>main\<close> of \<^verbatim>\<open>import_openfoodfacts.py\<close>, with the batch size as a parameter. The two
  guards print a message and return (lines 100 to 106); every exception inside the
  \<^verbatim>\<open>try\<close> block is caught, printed and not raised again (lines 152 to 155). The script
  never calls \<^verbatim>\<open>sys.exit\<close>, so the interpreter ends with exit code 0 on every path. The
  sample query of line 146 runs after the report and after the last commit and is left
  out.
\<close>

definition off_main_with :: "nat \<Rightarrow> off_env \<Rightarrow> off_report run" where
  "off_main_with b env =
     (case csv_file env of
        None \<Rightarrow> \<lparr>exit_code = 0, db_after = db_file env, report = None\<rparr>
      | Some csv \<Rightarrow>
          (case db_file env of
             None \<Rightarrow> \<lparr>exit_code = 0, db_after = None, report = None\<rparr>
           | Some d \<Rightarrow>
               (case get_csv_columns csv of
                  Inl e \<Rightarrow> \<lparr>exit_code = 0, db_after = Some d, report = None\<rparr>
                | Inr cols \<Rightarrow>
                    (case create_openfoodfacts_table (accepts_table env) (accepts_index env)
                            (connect d) cols of
                       Inl (e, d') \<Rightarrow> \<lparr>exit_code = 0, db_after = Some d', report = None\<rparr>
                     | Inr c \<Rightarrow>
                         (case import_csv_data_with b c csv cols of
                            Inl (e, d') \<Rightarrow> \<lparr>exit_code = 0, db_after = Some d', report = None\<rparr>
                          | Inr st \<Rightarrow>
                              (case count_openfoodfacts (conn st) of
                                 Inl (e, d') \<Rightarrow>
                                   \<lparr>exit_code = 0, db_after = Some d', report = None\<rparr>
                               | Inr final_count \<Rightarrow>
                                   \<lparr>exit_code = 0, db_after = Some (durable (conn st)),
                                    report = Some \<lparr>records_imported = total_imported st,
                                      records_in_table = final_count,
                                      import_log = events st\<rparr>\<rparr>))))))"

definition off_main :: "off_env \<Rightarrow> off_report run" where
  "off_main = off_main_with 10000"

section \<open>Remote copy: \<^verbatim>\<open>import_supabase_data.py\<close>\<close>

text \<open>The two source tables of the PostgreSQL server, unchanged during a run.\<close>

record pg_db =
  pg_products :: "product list"
  pg_ingredients :: "ingredient list"

text \<open>
  \<^verbatim>\<open>ORDER BY\<close> on a text column, ascending: PostgreSQL puts NULL last. Strings are
  compared character by character.
\<close>

definition order_key :: "string option \<Rightarrow> nat \<times> string" where
  "order_key v = (case v of None \<Rightarrow> (1, []) | Some s \<Rightarrow> (0, s))"

text \<open>\<^verbatim>\<open>SELECT ... ORDER BY key LIMIT lim OFFSET off\<close> followed by \<^verbatim>\<open>fetchall\<close>.\<close>

definition select_page :: "('r \<Rightarrow> string option) \<Rightarrow> 'r list \<Rightarrow> nat \<Rightarrow> nat \<Rightarrow> 'r list" where
  "select_page key tbl lim off = take lim (drop off (sort_key (\<lambda>r. order_key (key r)) tbl))"

text \<open>
  \<^verbatim>\<open>INSERT OR REPLACE\<close> of one row into a table whose column \<open>key\<close> is declared
  PRIMARY KEY or UNIQUE: the rows that hold the same non-NULL key are deleted and the new
  row is added with a fresh rowid. NULL keys never conflict.
\<close>

definition replace_row :: "('r \<Rightarrow> string option) \<Rightarrow> 'r list \<Rightarrow> 'r \<Rightarrow> 'r list" where
  "replace_row key tbl r = filter (\<lambda>q. \<not> (key r \<noteq> None \<and> key q = key r)) tbl @ [r]"

definition executemany_products :: "product list \<Rightarrow> sqlite_conn \<Rightarrow> failure + sqlite_conn" where
  "executemany_products rows c =
     (case products (working c) of
        None \<Rightarrow> Inl (OperationalError, durable c)
      | Some tbl \<Rightarrow>
          Inr (c\<lparr>working := (working c)\<lparr>products := Some (foldl (replace_row ean13) tbl rows)\<rparr>\<rparr>))"

definition executemany_ingredients ::
  "ingredient list \<Rightarrow> sqlite_conn \<Rightarrow> failure + sqlite_conn" where
  "executemany_ingredients rows c =
     (case ingredients (working c) of
        None \<Rightarrow> Inl (OperationalError, durable c)
      | Some tbl \<Rightarrow>
          Inr (c\<lparr>working := (working c)\<lparr>ingredients := Some (foldl (replace_row title) tbl rows)\<rparr>\<rparr>))"

text \<open>
  \<^verbatim>\<open>create_sqlite_db\<close>: \<^verbatim>\<open>sqlite3.connect\<close> creates the file when it does not exist; both
  tables are dropped and created again, empty; the \<^verbatim>\<open>openfoodfacts\<close> table is not touched.
\<close>

definition empty_db :: sqlite_db where
  "empty_db = \<lparr>openfoodfacts = None, products = None, ingredients = None\<rparr>"

definition create_sqlite_db :: "sqlite_db option \<Rightarrow> sqlite_conn" where
  "create_sqlite_db file =
     (let c = connect (case file of None \<Rightarrow> empty_db | Some d \<Rightarrow> d);
          c1 = autocommit (\<lambda>d. d\<lparr>products := None\<rparr>) c;
          c2 = autocommit (\<lambda>d. d\<lparr>ingredients := None\<rparr>) c1;
          c3 = autocommit (\<lambda>d. d\<lparr>products := Some []\<rparr>) c2;
          c4 = autocommit (\<lambda>d. d\<lparr>ingredients := Some []\<rparr>) c3
      in commit c4)"

text \<open>The local variables of an export loop, the SQLite connection and the log.\<close>

record 'r export_state =
  offset :: nat
  exported :: nat
  dest :: sqlite_conn
  log :: "'r event list"

text \<open>
  The \<^verbatim>\<open>while offset < total\<close> loop of \<^verbatim>\<open>export_products\<close> (lines 87 to 113) and of
  \<^verbatim>\<open>export_ingredients\<close> (lines 135 to 159). The two loops differ in the table, the
  ORDER BY column, the INSERT statement and the batch size, which are the parameters
  \<open>src\<close>, \<open>key\<close>, \<open>ins\<close> and \<open>b\<close>.
\<close>

function export_loop ::
  "('r \<Rightarrow> string option) \<Rightarrow> ('r list \<Rightarrow> sqlite_conn \<Rightarrow> failure + sqlite_conn) \<Rightarrow> nat \<Rightarrow>
   'r list \<Rightarrow> nat \<Rightarrow> 'r export_state \<Rightarrow> failure + 'r export_state" where
  "export_loop key ins b src total_rows st =
     (if offset st < total_rows then
        (let rows = select_page key src b (offset st) in
         if rows = [] then Inr (st\<lparr>log := log st @ [Fetch rows]\<rparr>)
         else
           (case ins rows (dest st) of
              Inl f \<Rightarrow> Inl f
            | Inr c \<Rightarrow>
                export_loop key ins b src total_rows
                  \<lparr>offset = offset st + b, exported = exported st + length rows,
                   dest = commit c, log = log st @ [Fetch rows, Write rows, Commit]\<rparr>))
      else Inr st)"
  by pat_completeness auto
termination
proof (relation "measure (\<lambda>(key, ins, b, src, total_rows, st). total_rows - offset st)")
  show "wf (measure (\<lambda>(key, ins, b, src, total_rows, st). total_rows - offset st))"
    by simp
next
  fix key :: "'r \<Rightarrow> string option" and ins :: "'r list \<Rightarrow> sqlite_conn \<Rightarrow> failure + sqlite_conn"
    and b :: nat and src :: "'r list" and total_rows :: nat and st :: "'r export_state"
    and rows :: "'r list" and c :: sqlite_conn
  assume "offset st < total_rows" and "rows = select_page key src b (offset st)" and "rows \<noteq> []"
  then have "0 < b"
    by (cases b) (simp_all add: select_page_def)
  with \<open>offset st < total_rows\<close>
  show "((key, ins, b, src, total_rows,
          \<lparr>offset = offset st + b, exported = exported st + length rows,
           dest = commit c, log = log st @ [Fetch rows, Write rows, Commit]\<rparr>),
         (key, ins, b, src, total_rows, st))
        \<in> measure (\<lambda>(key, ins, b, src, total_rows, st). total_rows - offset st)"
    by simp
qed

text \<open>
  \<^verbatim>\<open>export_products\<close> and \<^verbatim>\<open>export_ingredients\<close>: \<^verbatim>\<open>SELECT COUNT(*)\<close> gives
  \<open>total_rows\<close> (\<^verbatim>\<open>total\<close> in the source, a name HOL uses already), then the loop runs
  from offset 0. The source fixes the batch sizes 10000 and 20000.
\<close>

definition export_products_with ::
  "nat \<Rightarrow> pg_db \<Rightarrow> sqlite_conn \<Rightarrow> failure + product export_state" where
  "export_products_with b pg c =
     export_loop ean13 executemany_products b (pg_products pg) (length (pg_products pg))
       \<lparr>offset = 0, exported = 0, dest = c, log = []\<rparr>"

definition export_ingredients_with ::
  "nat \<Rightarrow> pg_db \<Rightarrow> sqlite_conn \<Rightarrow> failure + ingredient export_state" where
  "export_ingredients_with b pg c =
     export_loop title executemany_ingredients b (pg_ingredients pg)
       (length (pg_ingredients pg)) \<lparr>offset = 0, exported = 0, dest = c, log = []\<rparr>"

definition export_products :: "pg_db \<Rightarrow> sqlite_conn \<Rightarrow> failure + product export_state" where
  "export_products = export_products_with 10000"

definition export_ingredients ::
  "pg_db \<Rightarrow> sqlite_conn \<Rightarrow> failure + ingredient export_state" where
  "export_ingredients = export_ingredients_with 20000"

text \<open>
  What \<^verbatim>\<open>main\<close> of the remote copy finds: the server (\<open>None\<close> when \<^verbatim>\<open>psycopg2.connect\<close>
  raises) and the database file.
\<close>

record supabase_env =
  remote :: "pg_db option"
  sqlite_file :: "sqlite_db option"

text \<open>
  \<^verbatim>\<open>main\<close> of \<^verbatim>\<open>import_supabase_data.py\<close>, with the two batch sizes as parameters. The
  connection to the server is opened first (line 176); both \<^verbatim>\<open>except\<close> clauses call
  \<^verbatim>\<open>sys.exit(1)\<close>. The report holds the two counts returned by the export functions.
\<close>

definition supabase_main_with :: "nat \<Rightarrow> nat \<Rightarrow> supabase_env \<Rightarrow> (nat \<times> nat) run" where
  "supabase_main_with bp bi env =
     (case remote env of
        None \<Rightarrow> \<lparr>exit_code = 1, db_after = sqlite_file env, report = None\<rparr>
      | Some pg \<Rightarrow>
          (case export_products_with bp pg (create_sqlite_db (sqlite_file env)) of
             Inl (e, d) \<Rightarrow> \<lparr>exit_code = 1, db_after = Some d, report = None\<rparr>
           | Inr st \<Rightarrow>
               (case export_ingredients_with bi pg (dest st) of
                  Inl (e, d) \<Rightarrow> \<lparr>exit_code = 1, db_after = Some d, report = None\<rparr>
                | Inr st' \<Rightarrow>
                    \<lparr>exit_code = 0, db_after = Some (durable (dest st')),
                     report = Some (exported st, exported st')\<rparr>)))"

definition supabase_main :: "supabase_env \<Rightarrow> (nat \<times> nat) run" where
  "supabase_main = supabase_main_with 10000 20000"

section \<open>Reading a log\<close>

fun writes :: "'r event list \<Rightarrow> 'r list list" where
  "writes [] = []"
| "writes (Write rs # es) = rs # writes es"
| "writes (_ # es) = writes es"

fun fetches :: "'r event list \<Rightarrow> 'r list list" where
  "fetches [] = []"
| "fetches (Fetch rs # es) = rs # fetches es"
| "fetches (_ # es) = fetches es"

text \<open>Whether a write is still uncommitted after a log, given whether one was before it.\<close>

fun dirty_after :: "bool \<Rightarrow> 'r event list \<Rightarrow> bool" where
  "dirty_after d [] = d"
| "dirty_after d (Fetch _ # es) = dirty_after d es"
| "dirty_after d (Write _ # es) = dirty_after True es"
| "dirty_after d (Commit # es) = dirty_after False es"

text \<open>No read from the source happens while a write is uncommitted.\<close>

fun commit_before_read :: "bool \<Rightarrow> 'r event list \<Rightarrow> bool" where
  "commit_before_read d [] = True"
| "commit_before_read d (Fetch _ # es) = (\<not> d \<and> commit_before_read d es)"
| "commit_before_read d (Write _ # es) = commit_before_read True es"
| "commit_before_read d (Commit # es) = commit_before_read False es"

text \<open>The rows of the \<^verbatim>\<open>openfoodfacts\<close> table with \<open>rows\<close> appended, when the table exists.\<close>

definition append_rows :: "row list \<Rightarrow> sqlite_db \<Rightarrow> sqlite_db" where
  "append_rows rows d = d\<lparr>openfoodfacts :=
      map_option (\<lambda>t. t\<lparr>table_rows := table_rows t @ rows\<rparr>) (openfoodfacts d)\<rparr>"

text \<open>The connection sees an \<^verbatim>\<open>openfoodfacts\<close> table of \<open>n\<close> columns.\<close>

definition off_ready :: "nat \<Rightarrow> sqlite_conn \<Rightarrow> bool" where
  "off_ready n c = (map_option (\<lambda>t. length (columns t)) (openfoodfacts (working c)) = Some n)"

text \<open>No two rows hold the same non-NULL key.\<close>

definition unique_key :: "('r \<Rightarrow> string option) \<Rightarrow> 'r list \<Rightarrow> bool" where
  "unique_key key tbl = distinct (filter (\<lambda>k. k \<noteq> None) (map key tbl))"

text \<open>
  A list cut into consecutive pieces of \<open>b\<close> elements, the last piece holding what is
  left: what a transfer loop of batch size \<open>b\<close> is expected to write.
\<close>

function chunks :: "nat \<Rightarrow> 'a list \<Rightarrow> 'a list list" where
  "chunks b xs = (if b = 0 \<or> xs = [] then [] else take b xs # chunks b (drop b xs))"
  by pat_completeness auto
termination
  by (relation "measure (\<lambda>(b, xs). length xs)") auto

section \<open>The import loop\<close>

lemma writes_append [simp]: "writes (xs @ ys) = writes xs @ writes ys"
  by (induction xs rule: writes.induct) auto

lemma fetches_append [simp]: "fetches (xs @ ys) = fetches xs @ fetches ys"
  by (induction xs rule: fetches.induct) auto

lemma dirty_after_append [simp]: "dirty_after d (xs @ ys) = dirty_after (dirty_after d xs) ys"
  by (induction d xs rule: dirty_after.induct) auto

lemma commit_before_read_append [simp]:
  "commit_before_read d (xs @ ys) =
     (commit_before_read d xs \<and> commit_before_read (dirty_after d xs) ys)"
  by (induction d xs rule: commit_before_read.induct) auto

lemma length_normalize_row [simp]: "length (normalize_row n r) = n"
  by (simp add: normalize_row_def)

lemma append_rows_append [simp]: "append_rows ys (append_rows xs d) = append_rows (xs @ ys) d"
  by (cases "openfoodfacts d") (simp_all add: append_rows_def)

lemma append_rows_Nil [simp]: "append_rows [] d = d"
  by (cases "openfoodfacts d") (simp_all add: append_rows_def)

lemma working_commit [simp]: "working (commit c) = working c"
  by (simp add: commit_def)

lemma durable_commit [simp]: "durable (commit c) = working c"
  by (simp add: commit_def)

lemma off_ready_commit [simp]: "off_ready n (commit c) = off_ready n c"
  by (simp add: off_ready_def)

lemma off_ready_working:
  "working c' = append_rows ws (working c) \<Longrightarrow> off_ready n c' = off_ready n c"
  by (cases "openfoodfacts (working c)") (simp_all add: off_ready_def append_rows_def)

lemma executemany_off_ready:
  "off_ready n c \<Longrightarrow> list_all (\<lambda>r. length r = n) rows \<Longrightarrow>
   executemany_off n rows c = Inr (c\<lparr>working := append_rows rows (working c)\<rparr>)"
  by (auto simp: off_ready_def executemany_off_def append_rows_def split: option.splits)

lemma import_row_keep:
  "length (batch st) + 1 < b \<Longrightarrow>
   import_row n b r st =
     Inr (st\<lparr>batch := batch st @ [normalize_row n r], events := events st @ [Fetch [r]]\<rparr>)"
  by (simp add: import_row_def Let_def)

lemma import_row_flush:
  assumes "off_ready n (conn st)" "list_all (\<lambda>r. length r = n) (batch st)"
    and "b \<le> length (batch st) + 1"
  shows "import_row n b r st =
     Inr \<lparr>batch = [], total_imported = total_imported st + (length (batch st) + 1),
          conn = (if (total_imported st + (length (batch st) + 1)) mod 1000000 = 0
                  then commit ((conn st)\<lparr>working :=
                         append_rows (batch st @ [normalize_row n r]) (working (conn st))\<rparr>)
                  else (conn st)\<lparr>working :=
                         append_rows (batch st @ [normalize_row n r]) (working (conn st))\<rparr>),
          events = events st @ [Fetch [r], Write (batch st @ [normalize_row n r])] @
                   (if (total_imported st + (length (batch st) + 1)) mod 1000000 = 0
                    then [Commit] else [])\<rparr>"
proof -
  let ?B = "batch st @ [normalize_row n r]"
  have "executemany_off n ?B (conn st) = Inr ((conn st)\<lparr>working := append_rows ?B (working (conn st))\<rparr>)"
    using assms(1,2) by (intro executemany_off_ready) simp_all
  then show ?thesis
    using assms(3) by (simp add: import_row_def Let_def)
qed

lemma import_row_ready:
  assumes "off_ready n (conn st)" "list_all (\<lambda>r. length r = n) (batch st)"
  shows "\<exists>st' ws. import_row n b r st = Inr st'
     \<and> off_ready n (conn st') \<and> list_all (\<lambda>r. length r = n) (batch st')
     \<and> working (conn st') = append_rows ws (working (conn st))
     \<and> ws @ batch st' = batch st @ [normalize_row n r]
     \<and> total_imported st' = total_imported st + length ws
     \<and> concat (writes (events st')) = concat (writes (events st)) @ ws
     \<and> fetches (events st') = fetches (events st) @ [[r]]"
proof (cases "b \<le> length (batch st) + 1")
  case True
  show ?thesis
    unfolding import_row_flush[OF assms True]
    using assms by (auto simp: off_ready_def append_rows_def intro!: exI[of _ "batch st @ [normalize_row n r]"])
next
  case False
  then have "length (batch st) + 1 < b" by simp
  then show ?thesis
    unfolding import_row_keep[OF \<open>length (batch st) + 1 < b\<close>]
    using assms by (auto intro!: exI[of _ "[]"])
qed

lemma import_rows_ready:
  assumes "off_ready n (conn st)" "list_all (\<lambda>r. length r = n) (batch st)"
  shows "\<exists>st' ws. import_rows n b rs st = Inr st'
     \<and> off_ready n (conn st') \<and> list_all (\<lambda>r. length r = n) (batch st')
     \<and> working (conn st') = append_rows ws (working (conn st))
     \<and> ws @ batch st' = batch st @ map (normalize_row n) rs
     \<and> total_imported st' = total_imported st + length ws
     \<and> concat (writes (events st')) = concat (writes (events st)) @ ws
     \<and> concat (fetches (events st')) = concat (fetches (events st)) @ rs"
  using assms
proof (induction rs arbitrary: st)
  case Nil
  show ?case using Nil by (auto intro!: exI[of _ "[]"])
next
  case (Cons r rs)
  from import_row_ready[OF Cons.prems, of b r]
  obtain st1 ws1 where s1: "import_row n b r st = Inr st1"
     "off_ready n (conn st1)" "list_all (\<lambda>r. length r = n) (batch st1)"
     "working (conn st1) = append_rows ws1 (working (conn st))"
     "ws1 @ batch st1 = batch st @ [normalize_row n r]"
     "total_imported st1 = total_imported st + length ws1"
     "concat (writes (events st1)) = concat (writes (events st)) @ ws1"
     "fetches (events st1) = fetches (events st) @ [[r]]"
    by blast
  from Cons.IH[OF s1(2,3)]
  obtain st2 ws2 where s2: "import_rows n b rs st1 = Inr st2"
     "off_ready n (conn st2)" "list_all (\<lambda>r. length r = n) (batch st2)"
     "working (conn st2) = append_rows ws2 (working (conn st1))"
     "ws2 @ batch st2 = batch st1 @ map (normalize_row n) rs"
     "total_imported st2 = total_imported st1 + length ws2"
     "concat (writes (events st2)) = concat (writes (events st1)) @ ws2"
     "concat (fetches (events st2)) = concat (fetches (events st1)) @ rs"
    by blast
  have w: "working (conn st2) = append_rows (ws1 @ ws2) (working (conn st))"
    using s1(4) s2(4) by simp
  have b: "(ws1 @ ws2) @ batch st2 = batch st @ map (normalize_row n) (r # rs)"
    using s1(5) s2(5) by (metis append.assoc append_Cons append_Nil list.simps(9))
  show ?case
    using s1 s2 w b by (auto intro!: exI[of _ "ws1 @ ws2"])
qed

lemma import_remaining_ready:
  assumes "off_ready n (conn st)" "list_all (\<lambda>r. length r = n) (batch st)"
  shows "import_remaining n st =
     Inr (if batch st \<noteq> []
          then st\<lparr>total_imported := total_imported st + length (batch st),
                  conn := (conn st)\<lparr>working := append_rows (batch st) (working (conn st))\<rparr>,
                  events := events st @ [Write (batch st)]\<rparr>
          else st)"
  using executemany_off_ready[OF assms] by (simp add: import_remaining_def)

lemma import_csv_data_with_ready:
  assumes "off_ready (length cols) c"
  shows "\<exists>st. import_csv_data_with b c (header # rows) cols = Inr st
     \<and> working (conn st) = append_rows (map (normalize_row (length cols)) rows) (working c)
     \<and> durable (conn st) = working (conn st)
     \<and> total_imported st = length rows
     \<and> concat (writes (events st)) = map (normalize_row (length cols)) rows
     \<and> concat (fetches (events st)) = rows
     \<and> \<not> dirty_after False (events st)"
proof -
  let ?n = "length cols"
  let ?s0 = "\<lparr>batch = [], total_imported = 0, conn = c, events = []\<rparr>"
  from import_rows_ready[of ?n ?s0 b rows] assms
  obtain st1 ws where s1: "import_rows ?n b rows ?s0 = Inr st1"
     "off_ready ?n (conn st1)" "list_all (\<lambda>r. length r = ?n) (batch st1)"
     "working (conn st1) = append_rows ws (working c)"
     "ws @ batch st1 = map (normalize_row ?n) rows"
     "total_imported st1 = length ws"
     "concat (writes (events st1)) = ws"
     "concat (fetches (events st1)) = rows"
    by auto
  have len: "length ws + length (batch st1) = length rows"
    using s1(5) by (metis length_append length_map)
  show ?thesis
    using s1 len import_remaining_ready[OF s1(2,3)]
    by (auto simp: import_csv_data_with_def)
qed

section \<open>The text import as a whole\<close>

lemma create_openfoodfacts_table_eq:
  "create_openfoodfacts_table tok iok (connect d) cols =
     (if \<not> tok cols then Inl (OperationalError, d\<lparr>openfoodfacts := None\<rparr>)
      else if \<not> iok cols
        then Inl (OperationalError, d\<lparr>openfoodfacts := Some \<lparr>columns = cols, table_rows = []\<rparr>\<rparr>)
        else Inr (connect (d\<lparr>openfoodfacts := Some \<lparr>columns = cols, table_rows = []\<rparr>\<rparr>)))"
  by (simp add: create_openfoodfacts_table_def autocommit_def connect_def commit_def Let_def)

lemma off_ready_fresh:
  "off_ready (length cols) (connect (d\<lparr>openfoodfacts := Some \<lparr>columns = cols, table_rows = []\<rparr>\<rparr>))"
  by (simp add: off_ready_def connect_def)

lemma import_fresh_table:
  "\<exists>st. import_csv_data_with b
           (connect (d\<lparr>openfoodfacts := Some \<lparr>columns = cols, table_rows = []\<rparr>\<rparr>))
           (header # rows) cols = Inr st
     \<and> durable (conn st) = d\<lparr>openfoodfacts :=
           Some \<lparr>columns = cols, table_rows = map (normalize_row (length cols)) rows\<rparr>\<rparr>
     \<and> count_openfoodfacts (conn st) = Inr (length rows)
     \<and> total_imported st = length rows
     \<and> concat (writes (events st)) = map (normalize_row (length cols)) rows
     \<and> concat (fetches (events st)) = rows"
proof -
  let ?c = "connect (d\<lparr>openfoodfacts := Some \<lparr>columns = cols, table_rows = []\<rparr>\<rparr>)"
  from import_csv_data_with_ready[OF off_ready_fresh, where b=b and header=header and rows=rows and d1=d and cols=cols]
  obtain st where st: "import_csv_data_with b ?c (header # rows) cols = Inr st"
    "working (conn st) = append_rows (map (normalize_row (length cols)) rows) (working ?c)"
    "durable (conn st) = working (conn st)"
    "total_imported st = length rows"
    "concat (writes (events st)) = map (normalize_row (length cols)) rows"
    "concat (fetches (events st)) = rows"
    by blast
  have w: "working (conn st) = d\<lparr>openfoodfacts :=
           Some \<lparr>columns = cols, table_rows = map (normalize_row (length cols)) rows\<rparr>\<rparr>"
    by (simp add: st(2) append_rows_def connect_def)
  have "count_openfoodfacts (conn st) = Inr (length rows)"
    by (simp add: count_openfoodfacts_def w)
  with st w show ?thesis by auto
qed

lemma off_main_with_db_after:
  "db_after (off_main_with b env) =
     (case csv_file env of
        None \<Rightarrow> db_file env
      | Some csv \<Rightarrow>
          (case db_file env of
             None \<Rightarrow> None
           | Some d \<Rightarrow>
               (case csv of
                  [] \<Rightarrow> Some d
                | header # rows \<Rightarrow>
                    if \<not> accepts_table env header then Some (d\<lparr>openfoodfacts := None\<rparr>)
                    else if \<not> accepts_index env header
                    then Some (d\<lparr>openfoodfacts := Some \<lparr>columns = header, table_rows = []\<rparr>\<rparr>)
                    else Some (d\<lparr>openfoodfacts := Some \<lparr>columns = header,
                           table_rows = map (normalize_row (length header)) rows\<rparr>\<rparr>))))"
proof (cases "csv_file env")
  case None
  then show ?thesis by (simp add: off_main_with_def)
next
  case (Some csv)
  note csv = this
  show ?thesis
  proof (cases "db_file env")
    case None
    with csv show ?thesis by (simp add: off_main_with_def)
  next
    case (Some d)
    note d = this
    show ?thesis
    proof (cases csv)
      case Nil
      with csv d show ?thesis by (simp add: off_main_with_def get_csv_columns_def)
    next
      case (Cons header rows)
      from import_fresh_table[where b=b and d=d and cols=header and header=header and rows=rows]
      obtain st where st: "import_csv_data_with b
           (connect (d\<lparr>openfoodfacts := Some \<lparr>columns = header, table_rows = []\<rparr>\<rparr>))
           (header # rows) header = Inr st"
        "durable (conn st) = d\<lparr>openfoodfacts :=
           Some \<lparr>columns = header, table_rows = map (normalize_row (length header)) rows\<rparr>\<rparr>"
        "count_openfoodfacts (conn st) = Inr (length rows)"
        by blast
      with csv d Cons show ?thesis
        by (simp add: off_main_with_def get_csv_columns_def create_openfoodfacts_table_eq)
    qed
  qed
qed




section \<open>Batches\<close>

lemma chunks_Nil [simp]: "chunks b [] = []"
  by simp

lemma chunks_zero [simp]: "chunks 0 xs = []"
  by simp



declare chunks.simps [simp del]







section \<open>The export loop\<close>

declare export_loop.simps [simp del]

lemma fetches_pages [simp]:
  "fetches (concat (map (\<lambda>p. [Fetch p, Write p, Commit]) ps)) = ps"
  by (induction ps) auto

lemma writes_pages [simp]:
  "writes (concat (map (\<lambda>p. [Fetch p, Write p, Commit]) ps)) = ps"
  by (induction ps) auto

lemma dirty_after_pages [simp]:
  "dirty_after False (concat (map (\<lambda>p. [Fetch p, Write p, Commit]) ps)) = False"
  by (induction ps) auto

lemma commit_before_read_pages [simp]:
  "commit_before_read False (concat (map (\<lambda>p. [Fetch p, Write p, Commit]) ps))"
  by (induction ps) auto


lemma export_loop_invariant:
  assumes "\<And>rows c. I c \<Longrightarrow> \<exists>c'. ins rows c = Inr c' \<and> I (commit c')"
    and "I (dest st)"
  shows "\<exists>st'. export_loop key ins b src total_rows st = Inr st' \<and> I (dest st')"
  using assms
proof (induction key ins b src total_rows st rule: export_loop.induct)
  case (1 key ins b src total_rows st)
  note ins = "1.prems"(1) and inv = "1.prems"(2)
  show ?case
  proof (cases "offset st < total_rows")
    case False
    with inv show ?thesis by (subst export_loop.simps) simp
  next
    case True
    let ?rows = "select_page key src b (offset st)"
    show ?thesis
    proof (cases "?rows = []")
      case True
      with \<open>offset st < total_rows\<close> inv show ?thesis
        by (subst export_loop.simps) simp
    next
      case False
      from ins[OF inv, of ?rows] obtain c' where c': "ins ?rows (dest st) = Inr c'" "I (commit c')"
        by blast
      from "1.IH"[OF True refl False c'(1) ins] c'(2)
      obtain st' where "export_loop key ins b src total_rows
            \<lparr>offset = offset st + b, exported = exported st + length ?rows,
             dest = commit c', log = log st @ [Fetch ?rows, Write ?rows, Commit]\<rparr> = Inr st'"
          "I (dest st')"
        by auto
      with True False c'(1) show ?thesis
        by (subst export_loop.simps) (simp add: Let_def)
    qed
  qed
qed


section \<open>The remote copy as a whole\<close>

lemma unique_key_replace_row:
  assumes "unique_key key tbl"
  shows "unique_key key (replace_row key tbl r)"
proof (cases "key r")
  case None
  with assms show ?thesis by (simp add: unique_key_def replace_row_def)
next
  case (Some k)
  let ?F = "filter (\<lambda>v. v \<noteq> None) (map key tbl)"
  have step: "filter (\<lambda>v. v \<noteq> None) (map key (replace_row key tbl r)) =
        filter (\<lambda>v. v \<noteq> Some k) ?F @ [Some k]"
    using Some by (induction tbl) (auto simp: replace_row_def)
  have d: "distinct (filter (\<lambda>v. v \<noteq> Some k) ?F)"
    using assms unfolding unique_key_def by (rule distinct_filter)
  have "Some k \<notin> set (filter (\<lambda>v. v \<noteq> Some k) ?F)"
    by simp
  with d have "distinct (filter (\<lambda>v. v \<noteq> Some k) ?F @ [Some k])"
    by (metis distinct1_rotate distinct.simps(2) rotate1.simps(2))
  then show ?thesis
    unfolding unique_key_def step .
qed

lemma unique_key_foldl_replace:
  "unique_key key tbl \<Longrightarrow> unique_key key (foldl (replace_row key) tbl rows)"
  by (induction rows arbitrary: tbl) (simp_all add: unique_key_replace_row)


lemma executemany_products_Some:
  "products (working c) = Some tbl \<Longrightarrow>
   executemany_products rows c =
     Inr (c\<lparr>working := (working c)\<lparr>products := Some (foldl (replace_row ean13) tbl rows)\<rparr>\<rparr>)"
  by (simp add: executemany_products_def)

lemma executemany_ingredients_Some:
  "ingredients (working c) = Some tbl \<Longrightarrow>
   executemany_ingredients rows c =
     Inr (c\<lparr>working := (working c)\<lparr>ingredients := Some (foldl (replace_row title) tbl rows)\<rparr>\<rparr>)"
  by (simp add: executemany_ingredients_def)

lemma create_sqlite_db_eq:
  "create_sqlite_db file =
     connect ((case file of None \<Rightarrow> empty_db | Some d \<Rightarrow> d)\<lparr>products := Some [], ingredients := Some []\<rparr>)"
  by (simp add: create_sqlite_db_def autocommit_def connect_def commit_def Let_def)

text \<open>The products export changes the products table only and leaves nothing uncommitted.\<close>

lemma products_step:
  assumes "\<exists>P. working c = d\<lparr>products := Some P\<rparr> \<and> durable c = working c \<and> unique_key ean13 P"
  shows "\<exists>c'. executemany_products rows c = Inr c' \<and>
     (\<exists>P. working (commit c') = d\<lparr>products := Some P\<rparr> \<and> durable (commit c') = working (commit c')
        \<and> unique_key ean13 P)"
proof -
  from assms obtain P where P: "working c = d\<lparr>products := Some P\<rparr>" "unique_key ean13 P"
    by blast
  then have "products (working c) = Some P" by simp
  from executemany_products_Some[OF this, of rows] P unique_key_foldl_replace[OF P(2), of rows]
  show ?thesis by auto
qed

lemma ingredients_step:
  assumes "\<exists>G. working c = d\<lparr>ingredients := Some G\<rparr> \<and> durable c = working c \<and> unique_key title G"
  shows "\<exists>c'. executemany_ingredients rows c = Inr c' \<and>
     (\<exists>G. working (commit c') = d\<lparr>ingredients := Some G\<rparr> \<and> durable (commit c') = working (commit c')
        \<and> unique_key title G)"
proof -
  from assms obtain G where G: "working c = d\<lparr>ingredients := Some G\<rparr>" "unique_key title G"
    by blast
  then have "ingredients (working c) = Some G" by simp
  from executemany_ingredients_Some[OF this, of rows] G unique_key_foldl_replace[OF G(2), of rows]
  show ?thesis by auto
qed

lemma export_products_with_ok:
  assumes "working c = d\<lparr>products := Some P0\<rparr>" "durable c = working c" "unique_key ean13 P0"
  shows "\<exists>st P. export_products_with b pg c = Inr st
     \<and> working (dest st) = d\<lparr>products := Some P\<rparr> \<and> durable (dest st) = working (dest st)
     \<and> unique_key ean13 P"
proof -
  let ?I = "\<lambda>c. \<exists>P. working c = d\<lparr>products := Some P\<rparr> \<and> durable c = working c \<and> unique_key ean13 P"
  have "\<exists>st'. export_loop ean13 executemany_products b (pg_products pg) (length (pg_products pg))
           \<lparr>offset = 0, exported = 0, dest = c, log = []\<rparr> = Inr st' \<and> ?I (dest st')"
    by (rule export_loop_invariant[where I = ?I]) (use assms products_step in auto)
  then show ?thesis by (auto simp: export_products_with_def)
qed

lemma export_ingredients_with_ok:
  assumes "working c = d\<lparr>ingredients := Some G0\<rparr>" "durable c = working c" "unique_key title G0"
  shows "\<exists>st G. export_ingredients_with b pg c = Inr st
     \<and> working (dest st) = d\<lparr>ingredients := Some G\<rparr> \<and> durable (dest st) = working (dest st)
     \<and> unique_key title G"
proof -
  let ?I = "\<lambda>c. \<exists>G. working c = d\<lparr>ingredients := Some G\<rparr> \<and> durable c = working c \<and> unique_key title G"
  have "\<exists>st'. export_loop title executemany_ingredients b (pg_ingredients pg) (length (pg_ingredients pg))
           \<lparr>offset = 0, exported = 0, dest = c, log = []\<rparr> = Inr st' \<and> ?I (dest st')"
    by (rule export_loop_invariant[where I = ?I]) (use assms ingredients_step in auto)
  then show ?thesis by (auto simp: export_ingredients_with_def)
qed

lemma supabase_main_with_connected:
  assumes "remote env = Some pg"
  shows "\<exists>P G r. supabase_main_with bp bi env =
      \<lparr>exit_code = 0,
       db_after = Some ((case sqlite_file env of None \<Rightarrow> empty_db | Some d \<Rightarrow> d)
                          \<lparr>products := Some P, ingredients := Some G\<rparr>),
       report = Some r\<rparr> \<and> unique_key ean13 P \<and> unique_key title G"
proof -
  let ?d = "case sqlite_file env of None \<Rightarrow> empty_db | Some d \<Rightarrow> d"
  let ?c = "create_sqlite_db (sqlite_file env)"
  have c: "working ?c = (?d\<lparr>ingredients := Some []\<rparr>)\<lparr>products := Some []\<rparr>" "durable ?c = working ?c"
    by (simp_all add: create_sqlite_db_eq connect_def)
  from export_products_with_ok[OF c, of bp pg]
  obtain st P where st: "export_products_with bp pg ?c = Inr st"
    "working (dest st) = (?d\<lparr>ingredients := Some []\<rparr>)\<lparr>products := Some P\<rparr>"
    "durable (dest st) = working (dest st)" "unique_key ean13 P"
    by (auto simp: unique_key_def)
  have w: "working (dest st) = (?d\<lparr>products := Some P\<rparr>)\<lparr>ingredients := Some []\<rparr>"
    by (simp add: st(2))
  from export_ingredients_with_ok[OF w st(3), of bi pg]
  obtain st' G where st': "export_ingredients_with bi pg (dest st) = Inr st'"
    "working (dest st') = (?d\<lparr>products := Some P\<rparr>)\<lparr>ingredients := Some G\<rparr>"
    "durable (dest st') = working (dest st')" "unique_key title G"
    by (auto simp: unique_key_def)
  have "supabase_main_with bp bi env =
      \<lparr>exit_code = 0, db_after = Some (?d\<lparr>products := Some P, ingredients := Some G\<rparr>),
       report = Some (exported st, exported st')\<rparr>"
    using assms st st' by (simp add: supabase_main_with_def)
  with st(4) st'(4) show ?thesis by blast
qed

lemma supabase_main_with_rerun:
  "supabase_main_with bp bi (env\<lparr>sqlite_file := db_after (supabase_main_with bp bi env)\<rparr>) =
   supabase_main_with bp bi env"
proof (cases "remote env")
  case None
  then show ?thesis by (simp add: supabase_main_with_def)
next
  case (Some pg)
  from supabase_main_with_connected[OF Some, of bp bi]
  obtain P G r where run: "supabase_main_with bp bi env =
      \<lparr>exit_code = 0,
       db_after = Some ((case sqlite_file env of None \<Rightarrow> empty_db | Some d \<Rightarrow> d)
                          \<lparr>products := Some P, ingredients := Some G\<rparr>),
       report = Some r\<rparr>"
    by blast
  have "create_sqlite_db (db_after (supabase_main_with bp bi env)) = create_sqlite_db (sqlite_file env)"
    by (simp add: run create_sqlite_db_eq)
  then show ?thesis
    using Some by (simp add: supabase_main_with_def)
qed

section \<open>Logs of the two loops\<close>













lemma dirty_after_fetches [simp]: "dirty_after d (map (\<lambda>r. Fetch [r]) rs) = d"
  by (induction rs) auto


section \<open>Record normalization\<close>





section \<open>Counts and batches\<close>





section \<open>Commits\<close>




section \<open>Failures and exit codes\<close>

text \<open>
  Claim C3 says that a missing input file, a missing destination path and a failed
  remote connection all end the process with a non-zero exit code, in both pipelines.
  The text import returns from \<^verbatim>\<open>main\<close> after it has printed that the input file is
  missing: the process ends with exit code 0.
\<close>

theorem missing_input_exits_zero_counterexample:
  "exit_code (off_main
      \<lparr>csv_file = None,
       db_file = Some \<lparr>openfoodfacts = None, products = None, ingredients = None\<rparr>,
       accepts_table = (\<lambda>cols. True), accepts_index = (\<lambda>cols. True)\<rparr>) = 0"
  by (simp add: off_main_def off_main_with_def)

text \<open>
  Claim C3, amended. In the remote copy a failed remote connection ends the process
  with exit code 1. In the text import a missing input file or a missing destination
  path is reported and \<^verbatim>\<open>main\<close> returns: the process ends with exit code 0, the database
  file is as it was and no report is printed.
\<close>

theorem exit_codes_on_precondition_failure:
  "(remote senv = None \<longrightarrow> exit_code (supabase_main senv) = 1)
   \<and> (csv_file env = None \<or> db_file env = None \<longrightarrow>
        exit_code (off_main env) = 0 \<and> db_after (off_main env) = db_file env
        \<and> report (off_main env) = None)"
  by (auto simp: supabase_main_def supabase_main_with_def off_main_def off_main_with_def
      split: option.splits)

theorem exit_codes_on_precondition_failure_witness:
  "exit_code (supabase_main \<lparr>remote = None, sqlite_file = None\<rparr>) = 1
   \<and> exit_code (off_main
        \<lparr>csv_file = Some [[''code'']], db_file = None,
         accepts_table = (\<lambda>cols. True), accepts_index = (\<lambda>cols. True)\<rparr>) = 0"
proof -
  let ?senv = "\<lparr>remote = None, sqlite_file = None\<rparr>"
  let ?env = "\<lparr>csv_file = Some [[''code'']], db_file = None,
         accepts_table = (\<lambda>cols. True), accepts_index = (\<lambda>cols. True)\<rparr>"
  note t = exit_codes_on_precondition_failure[of ?senv ?env]
  have h1: "remote ?senv = None"
    by simp
  have h2: "csv_file ?env = None \<or> db_file ?env = None"
    by simp
  from t[THEN conjunct1, THEN mp, OF h1] t[THEN conjunct2, THEN mp, OF h2, THEN conjunct1]
  show ?thesis
    by (intro conjI)
qed

text \<open>
  Claim C7. When the remote connection cannot be established, the remote copy ends
  before any destination table is created, dropped or changed: the database file is
  exactly as it was before the run (also when it did not exist), nothing is reported and
  the exit code is 1.
\<close>

theorem no_connection_leaves_destination_untouched:
  "remote env = None \<Longrightarrow>
     db_after (supabase_main_with bp bi env) = sqlite_file env
   \<and> report (supabase_main_with bp bi env) = None
   \<and> exit_code (supabase_main_with bp bi env) = 1"
  by (simp add: supabase_main_with_def)

theorem no_connection_leaves_destination_untouched_witness:
  "db_after (supabase_main_with 10000 20000
      \<lparr>remote = None,
       sqlite_file = Some \<lparr>openfoodfacts = None, products = Some [],
          ingredients = Some [\<lparr>title = Some ''salt'', ingredient_class = Some ''vegan'',
            productcount = Some 3, ing_lastupdated = None, ing_created = None,
            primary_class = None\<rparr>]\<rparr>\<rparr>) =
     Some \<lparr>openfoodfacts = None, products = Some [],
          ingredients = Some [\<lparr>title = Some ''salt'', ingredient_class = Some ''vegan'',
            productcount = Some 3, ing_lastupdated = None, ing_created = None,
            primary_class = None\<rparr>]\<rparr>"
proof -
  let ?env = "\<lparr>remote = None,
       sqlite_file = Some \<lparr>openfoodfacts = None, products = Some [],
          ingredients = Some [\<lparr>title = Some ''salt'', ingredient_class = Some ''vegan'',
            productcount = Some 3, ing_lastupdated = None, ing_created = None,
            primary_class = None\<rparr>]\<rparr>\<rparr>"
  have h: "remote ?env = None"
    by simp
  from no_connection_leaves_destination_untouched[OF h, of 10000 20000, THEN conjunct1]
  show ?thesis
    by simp
qed

section \<open>Running a pipeline again\<close>

text \<open>
  Claim C4. Running a pipeline a second time on the database file the first run left,
  with the same input, leaves the same database file: the rows of the destination tables
  after the second run are those after the first run. A run that gets as far as the
  schema step drops and creates its tables again, so what it leaves does not depend on
  the rows the tables held before.
\<close>

theorem second_run_leaves_same_tables:
  "db_after (off_main_with b (env\<lparr>db_file := db_after (off_main_with b env)\<rparr>)) =
     db_after (off_main_with b env)
   \<and> db_after (supabase_main_with bp bi
         (senv\<lparr>sqlite_file := db_after (supabase_main_with bp bi senv)\<rparr>)) =
     db_after (supabase_main_with bp bi senv)
   \<and> (csv_file env = Some (header # rows) \<longrightarrow>
        db_after (off_main_with b (env\<lparr>db_file := Some (d\<lparr>openfoodfacts := t\<rparr>)\<rparr>)) =
        db_after (off_main_with b (env\<lparr>db_file := Some (d\<lparr>openfoodfacts := t'\<rparr>)\<rparr>)))
   \<and> (remote senv = Some pg \<longrightarrow>
        db_after (supabase_main_with bp bi
          (senv\<lparr>sqlite_file := Some (d\<lparr>products := p, ingredients := g\<rparr>)\<rparr>)) =
        db_after (supabase_main_with bp bi
          (senv\<lparr>sqlite_file := Some (d\<lparr>products := p', ingredients := g'\<rparr>)\<rparr>)))"
proof (intro conjI impI)
  show "db_after (off_main_with b (env\<lparr>db_file := db_after (off_main_with b env)\<rparr>)) =
     db_after (off_main_with b env)"
    by (simp add: off_main_with_db_after split: option.splits list.splits)
next
  show "db_after (supabase_main_with bp bi
         (senv\<lparr>sqlite_file := db_after (supabase_main_with bp bi senv)\<rparr>)) =
     db_after (supabase_main_with bp bi senv)"
    by (simp add: supabase_main_with_rerun)
next
  assume "csv_file env = Some (header # rows)"
  then show "db_after (off_main_with b (env\<lparr>db_file := Some (d\<lparr>openfoodfacts := t\<rparr>)\<rparr>)) =
        db_after (off_main_with b (env\<lparr>db_file := Some (d\<lparr>openfoodfacts := t'\<rparr>)\<rparr>))"
    by (simp add: off_main_with_db_after)
next
  assume "remote senv = Some pg"
  then show "db_after (supabase_main_with bp bi
          (senv\<lparr>sqlite_file := Some (d\<lparr>products := p, ingredients := g\<rparr>)\<rparr>)) =
        db_after (supabase_main_with bp bi
          (senv\<lparr>sqlite_file := Some (d\<lparr>products := p', ingredients := g'\<rparr>)\<rparr>))"
    by (simp add: supabase_main_with_def create_sqlite_db_eq)
qed


theorem second_run_leaves_same_tables_witness:
  "db_after (off_main_with 2
      (\<lparr>csv_file = Some [[''code''], [''1''], [''2'', ''x'']],
        db_file = Some \<lparr>openfoodfacts = Some \<lparr>columns = [''old''], table_rows = [[''stale'']]\<rparr>,
          products = None, ingredients = None\<rparr>,
        accepts_table = (\<lambda>cols. True), accepts_index = (\<lambda>cols. True)\<rparr>
       \<lparr>db_file := db_after (off_main_with 2
          \<lparr>csv_file = Some [[''code''], [''1''], [''2'', ''x'']],
           db_file = Some \<lparr>openfoodfacts = Some \<lparr>columns = [''old''], table_rows = [[''stale'']]\<rparr>,
             products = None, ingredients = None\<rparr>,
           accepts_table = (\<lambda>cols. True), accepts_index = (\<lambda>cols. True)\<rparr>)\<rparr>)) =
     Some \<lparr>openfoodfacts = Some \<lparr>columns = [''code''], table_rows = [[''1''], [''2'']]\<rparr>,
       products = None, ingredients = None\<rparr>
   \<and> db_after (off_main_with 2
        (\<lparr>csv_file = Some [[''code''], [''1''], [''2'', ''x'']],
          db_file = Some \<lparr>openfoodfacts = Some \<lparr>columns = [''old''], table_rows = [[''stale'']]\<rparr>,
            products = None, ingredients = None\<rparr>,
          accepts_table = (\<lambda>cols. True), accepts_index = (\<lambda>cols. True)\<rparr>
         \<lparr>db_file := Some (\<lparr>openfoodfacts = None, products = None, ingredients = None\<rparr>
            \<lparr>openfoodfacts := None\<rparr>)\<rparr>)) =
     db_after (off_main_with 2
        (\<lparr>csv_file = Some [[''code''], [''1''], [''2'', ''x'']],
          db_file = Some \<lparr>openfoodfacts = Some \<lparr>columns = [''old''], table_rows = [[''stale'']]\<rparr>,
            products = None, ingredients = None\<rparr>,
          accepts_table = (\<lambda>cols. True), accepts_index = (\<lambda>cols. True)\<rparr>
         \<lparr>db_file := Some (\<lparr>openfoodfacts = None, products = None, ingredients = None\<rparr>
            \<lparr>openfoodfacts := Some \<lparr>columns = [''old''], table_rows = [[''stale'']]\<rparr>\<rparr>)\<rparr>))
   \<and> db_after (supabase_main_with 2 2
        \<lparr>remote = Some \<lparr>pg_products = [], pg_ingredients = []\<rparr>,
         sqlite_file = Some (\<lparr>openfoodfacts = None, products = None, ingredients = None\<rparr>
           \<lparr>products := None, ingredients := None\<rparr>)\<rparr>) =
     db_after (supabase_main_with 2 2
        \<lparr>remote = Some \<lparr>pg_products = [], pg_ingredients = []\<rparr>,
         sqlite_file = Some (\<lparr>openfoodfacts = None, products = None, ingredients = None\<rparr>
           \<lparr>products := Some [], ingredients := Some []\<rparr>)\<rparr>)"
proof -
  let ?env = "\<lparr>csv_file = Some [[''code''], [''1''], [''2'', ''x'']],
        db_file = Some \<lparr>openfoodfacts = Some \<lparr>columns = [''old''], table_rows = [[''stale'']]\<rparr>,
          products = None, ingredients = None\<rparr>,
        accepts_table = (\<lambda>cols. True), accepts_index = (\<lambda>cols. True)\<rparr>"
  let ?senv = "\<lparr>remote = Some \<lparr>pg_products = [], pg_ingredients = []\<rparr>,
         sqlite_file = (None :: sqlite_db option)\<rparr>"
  let ?d = "\<lparr>openfoodfacts = None, products = None, ingredients = None\<rparr>"
  have first: "db_after (off_main_with 2 ?env) =
     Some \<lparr>openfoodfacts = Some \<lparr>columns = [''code''], table_rows = [[''1''], [''2'']]\<rparr>,
       products = None, ingredients = None\<rparr>"
    by (simp add: off_main_with_db_after normalize_row_def)
  note t = second_run_leaves_same_tables[where b = 2 and env = ?env and bp = 2 and bi = 2
      and senv = ?senv and pg = "\<lparr>pg_products = [], pg_ingredients = []\<rparr>" and d = ?d
      and p = None and g = None and p' = "Some []" and g' = "Some []"
      and header = "[''code'']" and rows = "[[''1''], [''2'', ''x'']]"
      and t = None and t' = "Some \<lparr>columns = [''old''], table_rows = [[''stale'']]\<rparr>"]
  have h: "remote ?senv = Some \<lparr>pg_products = [], pg_ingredients = []\<rparr>"
    by simp
  have h': "csv_file ?env = Some ([''code''] # [[''1''], [''2'', ''x'']])"
    by simp
  from t[THEN conjunct1] first
  have a: "db_after (off_main_with 2 (?env\<lparr>db_file := db_after (off_main_with 2 ?env)\<rparr>)) =
     Some \<lparr>openfoodfacts = Some \<lparr>columns = [''code''], table_rows = [[''1''], [''2'']]\<rparr>,
       products = None, ingredients = None\<rparr>"
    by (rule trans)
  note b = t[THEN conjunct2, THEN conjunct2, THEN conjunct1, THEN mp, OF h']
  from t[THEN conjunct2, THEN conjunct2, THEN conjunct2, THEN mp, OF h]
  have c: "db_after (supabase_main_with 2 2
        \<lparr>remote = Some \<lparr>pg_products = [], pg_ingredients = []\<rparr>,
         sqlite_file = Some (?d\<lparr>products := None, ingredients := None\<rparr>)\<rparr>) =
     db_after (supabase_main_with 2 2
        \<lparr>remote = Some \<lparr>pg_products = [], pg_ingredients = []\<rparr>,
         sqlite_file = Some (?d\<lparr>products := Some [], ingredients := Some []\<rparr>)\<rparr>)"
    by simp
  from a b c show ?thesis
    by (intro conjI)
qed

section \<open>Pages of the remote query\<close>



section \<open>Uniqueness of the product key\<close>




end
